theory Spec2Isabelle
  imports Complex_Main
begin

section \<open>JavaScript numbers\<close>

text \<open>
  A JavaScript \<^verbatim>\<open>number\<close> is modelled as a real number when it is finite, with the three
  non-finite values written out. Rounding of the binary representation is not modelled.
\<close>

datatype jsnum = Fin real | PosInf | NegInf | NaN


section \<open>control.tsx: the closed-form ETA predictor\<close>

definition FLOOD_LEVEL :: real where
  "FLOOD_LEVEL = 1.00"

definition ALPHA_level :: real where
  "ALPHA_level = 0.05"

definition TICK_MS_control :: real where
  "TICK_MS_control = 200"

text \<open>
  \<^verbatim>\<open>etaToFloodSeconds(currentLevel, targetLevel)\<close> on finite arguments. The result is a
  \<^typ>\<open>jsnum\<close> because the first guard returns \<^verbatim>\<open>Number.POSITIVE_INFINITY\<close>.
\<close>

definition etaToFloodSeconds :: "real \<Rightarrow> real \<Rightarrow> jsnum" where
  "etaToFloodSeconds currentLevel targetLevel =
     (let deltaFlood = targetLevel - FLOOD_LEVEL in
      if deltaFlood \<le> 0 then PosInf
      else
        let d0 = targetLevel - currentLevel in
        if d0 \<le> deltaFlood then Fin 0
        else
          let a = ALPHA_level;
              n = ln (deltaFlood / d0) / ln (1 - a)
          in Fin (max 0 (n * (TICK_MS_control / 1000))))"

section \<open>control-lite.tsx: likelihood smoothing\<close>

definition EMA_ALPHA :: real where
  "EMA_ALPHA = 0.25"

definition MAX_STEP :: real where
  "MAX_STEP = 4"

text \<open>The updater passed to \<^verbatim>\<open>setLk\<close>: exponential smoothing, then the step clamp.\<close>

definition smooth_clamp :: "real \<Rightarrow> real \<Rightarrow> real" where
  "smooth_clamp prev rawLikelihood =
     (let ema = prev + EMA_ALPHA * (rawLikelihood - prev);
          clamped = max (prev - MAX_STEP) (min (prev + MAX_STEP) ema)
      in clamped)"


section \<open>control-lite.tsx: types, tunables and helpers\<close>

datatype FloodStage = normal | watch | warning | danger | subsiding

datatype StatusLabel = NORMAL | WATCH | WARNING | DANGER | SUBSIDING

datatype SimPhase = idle | rampUp | peakHold | rampDown

record Sensors =
  airTemp :: real
  humidity :: real
  level :: real
  flow :: real
  pressure :: real
  wind :: real
  soil :: real
  turbidity :: real
  waterTemp :: real
  upstreamLevel :: real
  rainRate :: real
  dischargeQ :: real

definition NORMAL_MAX :: int where "NORMAL_MAX = 39"
definition WATCH_MIN :: int where "WATCH_MIN = 40"
definition WATCH_MAX :: int where "WATCH_MAX = 69"
definition WARNING_MIN :: int where "WARNING_MIN = 70"
definition WARNING_MAX :: int where "WARNING_MAX = 79"
definition DANGER_MIN :: int where "DANGER_MIN = 80"

definition COUNTDOWN_START_PCT :: real where "COUNTDOWN_START_PCT = 95"
definition COUNTDOWN_START_S :: int where "COUNTDOWN_START_S = 20"
definition PEAK_NOW_PCT :: real where "PEAK_NOW_PCT = 99"

definition RAMP_UP_STEP :: real where "RAMP_UP_STEP = 4"
definition RAMP_DOWN_STEP :: real where "RAMP_DOWN_STEP = 3"

definition BASELINE_EPS :: real where "BASELINE_EPS = 0.03"

fun stageToStatusLabel :: "FloodStage \<Rightarrow> StatusLabel" where
  "stageToStatusLabel normal = NORMAL"
| "stageToStatusLabel watch = WATCH"
| "stageToStatusLabel warning = WARNING"
| "stageToStatusLabel danger = DANGER"
| "stageToStatusLabel subsiding = SUBSIDING"

definition BASE :: Sensors where
  "BASE = \<lparr> airTemp = 31.0, humidity = 70.0, level = 1.20, flow = 0.80,
            pressure = 1008.0, wind = 1.5, soil = 25.0, turbidity = 10.0,
            waterTemp = 29.0, upstreamLevel = 1.10, rainRate = 0.0,
            dischargeQ = 96.0 \<rparr>"

definition clamp01 :: "real \<Rightarrow> real" where
  "clamp01 x = max 0 (min 1 x)"

definition lerp :: "real \<Rightarrow> real \<Rightarrow> real \<Rightarrow> real" where
  "lerp a b t = a + (b - a) * t"

definition easePow :: "real \<Rightarrow> real \<Rightarrow> real" where
  "easePow x p = (let c = clamp01 x in c powr p)"

definition approxEqual :: "real \<Rightarrow> real \<Rightarrow> real \<Rightarrow> bool" where
  "approxEqual a b epsAbs = (\<bar>a - b\<bar> \<le> epsAbs)"

text \<open>The memo \<^verbatim>\<open>targets\<close>, a function of the rain intensity.\<close>

definition targets :: "real \<Rightarrow> Sensors" where
  "targets rain_pct =
     (let x = clamp01 (rain_pct / 100);
          x1 = easePow x 1.12;
          x2 = easePow x 1.35;
          x3 = easePow x 1.7;
          t_level = level BASE + 0.75 * x2;
          t_flow = flow BASE + 0.9 * x1
      in \<lparr> airTemp = airTemp BASE - 2.5 * x1,
           humidity = humidity BASE + 25 * x1,
           level = t_level,
           flow = t_flow,
           pressure = pressure BASE - 9 * x1,
           wind = wind BASE + 3.2 * x1,
           soil = soil BASE + 35 * x1,
           turbidity = turbidity BASE + 85 * x3,
           waterTemp = waterTemp BASE - 1.4 * x1,
           upstreamLevel = upstreamLevel BASE + 0.8 * x2,
           rainRate = rainRate BASE + 120 * x1,
           dischargeQ = (t_level * t_flow) * 100 \<rparr>)"

text \<open>The memo \<^verbatim>\<open>rawLikelihood\<close>, a function of the live sensor readings.\<close>

definition rawLikelihood :: "Sensors \<Rightarrow> real" where
  "rawLikelihood s =
     (let fLevel = clamp01 ((level s - level BASE) / 0.75);
          fFlow = clamp01 ((flow s - flow BASE) / 0.9);
          fUp = clamp01 ((upstreamLevel s - upstreamLevel BASE) / 0.8);
          fTurb = clamp01 ((turbidity s - turbidity BASE) / 85);
          fRain = clamp01 ((rainRate s - rainRate BASE) / 120);
          fPdrop = clamp01 ((pressure BASE - pressure s) / 9);
          score = 0.27 * fLevel + 0.20 * fFlow + 0.20 * fUp + 0.14 * fTurb
                  + 0.14 * fRain + 0.05 * fPdrop
      in clamp01 score * 100)"

text \<open>
  The local \<^verbatim>\<open>close\<close> of the stage effect: every tracked reading is within 3 percent
  of its baseline, the rain rate (whose baseline is 0) within 1.0 absolutely. The derived
  discharge is not tracked.
\<close>

definition close :: "Sensors \<Rightarrow> bool" where
  "close s =
     (approxEqual (airTemp s) (airTemp BASE) (\<bar>airTemp BASE\<bar> * BASELINE_EPS) \<and>
      approxEqual (humidity s) (humidity BASE) (\<bar>humidity BASE\<bar> * BASELINE_EPS) \<and>
      approxEqual (level s) (level BASE) (\<bar>level BASE\<bar> * BASELINE_EPS) \<and>
      approxEqual (flow s) (flow BASE) (\<bar>flow BASE\<bar> * BASELINE_EPS) \<and>
      approxEqual (pressure s) (pressure BASE) (\<bar>pressure BASE\<bar> * BASELINE_EPS) \<and>
      approxEqual (wind s) (wind BASE) (\<bar>wind BASE\<bar> * BASELINE_EPS) \<and>
      approxEqual (soil s) (soil BASE) (\<bar>soil BASE\<bar> * BASELINE_EPS) \<and>
      approxEqual (turbidity s) (turbidity BASE) (\<bar>turbidity BASE\<bar> * BASELINE_EPS) \<and>
      approxEqual (waterTemp s) (waterTemp BASE) (\<bar>waterTemp BASE\<bar> * BASELINE_EPS) \<and>
      approxEqual (upstreamLevel s) (upstreamLevel BASE)
        (\<bar>upstreamLevel BASE\<bar> * BASELINE_EPS) \<and>
      approxEqual (rainRate s) (rainRate BASE) 1.0)"

text \<open>The bucket cascade of the stage effect, on the rounded likelihood.\<close>

definition bucket :: "int \<Rightarrow> FloodStage" where
  "bucket p =
     (if p \<ge> DANGER_MIN then danger
      else if p \<ge> WARNING_MIN then warning
      else if p \<ge> WATCH_MIN then watch
      else normal)"

section \<open>control-lite.tsx: the component state\<close>

text \<open>
  The React state variables and refs of \<^verbatim>\<open>FloodDemoControl\<close>, together with the part
  of the browser the component talks to: the set of live countdown intervals, the set of
  pending peak-hold timeouts and the next timer handle. Handles are positive, as
  \<^verbatim>\<open>setInterval\<close> and \<^verbatim>\<open>setTimeout\<close> return them. The countdown value is an integer
  because only 20 and decrements by 1 are ever written. The toast list is left out.
\<close>

record lite =
  phase :: SimPhase
  rain :: real
  S :: Sensors
  lk :: real
  lkRef :: real
  stage :: FloodStage
  etaSeconds :: "int option"
  etaNow :: bool
  countdownTimerRef :: "nat option"
  peakHoldTimerRef :: "nat option"
  dangerAlertedRef :: bool
  rampUpSinceRef :: "real option"
  dangerSinceRef :: "real option"
  intervals :: "nat set"
  timeouts :: "nat set"
  nextTimerId :: nat

definition init :: lite where
  "init = \<lparr> phase = idle, rain = 0, S = BASE, lk = 0, lkRef = 0, stage = normal,
            etaSeconds = None, etaNow = False, countdownTimerRef = None,
            peakHoldTimerRef = None, dangerAlertedRef = False, rampUpSinceRef = None,
            dangerSinceRef = None, intervals = {}, timeouts = {}, nextTimerId = 1 \<rparr>"

text \<open>
  An effect reads the state variables of the render that scheduled it (the snapshot
  \<open>snap\<close>) and the refs as they are now; its \<^verbatim>\<open>set...\<close> calls and ref writes go to the
  pending state \<open>acc\<close>. A functional updater (\<^verbatim>\<open>setLk(prev => ...)\<close>) reads the pending
  state.
\<close>

definition lk_effect :: "lite \<Rightarrow> lite \<Rightarrow> lite" where
  "lk_effect snap acc =
     (let clamped = smooth_clamp (lk acc) (rawLikelihood (S snap))
      in acc\<lparr> lk := clamped, lkRef := clamped \<rparr>)"

definition stage_effect :: "lite \<Rightarrow> lite \<Rightarrow> lite" where
  "stage_effect snap acc =
     (if phase snap = rampDown \<and> \<not> close (S snap) then acc\<lparr> stage := subsiding \<rparr>
      else
        let p = round (lk snap);
            acc1 = acc\<lparr> stage := bucket p \<rparr>
        in if phase snap = rampDown \<and> close (S snap)
           then acc1\<lparr> phase := idle, etaSeconds := None, etaNow := False,
                      dangerAlertedRef := False \<rparr>
           else acc1)"

definition clearCountdown :: "lite \<Rightarrow> lite" where
  "clearCountdown acc =
     (case countdownTimerRef acc of
        None \<Rightarrow> acc
      | Some h \<Rightarrow>
          if h = 0 then acc
          else acc\<lparr> intervals := intervals acc - {h}, countdownTimerRef := None \<rparr>)"

definition eta_effect :: "lite \<Rightarrow> lite \<Rightarrow> lite" where
  "eta_effect snap acc =
     (if etaNow snap then clearCountdown acc
      else
        let p = lkRef acc;
            acc1 = (if p \<ge> COUNTDOWN_START_PCT \<and> p < PEAK_NOW_PCT \<and> etaSeconds snap = None
                    then acc\<lparr> etaSeconds := Some COUNTDOWN_START_S,
                              countdownTimerRef := Some (nextTimerId acc),
                              intervals := insert (nextTimerId acc) (intervals acc),
                              nextTimerId := nextTimerId acc + 1 \<rparr>
                    else acc);
            acc2 = (if p \<ge> PEAK_NOW_PCT
                    then clearCountdown (acc1\<lparr> etaNow := True, etaSeconds := None \<rparr>)
                    else acc1);
            acc3 = (if p < COUNTDOWN_START_PCT \<and> etaSeconds snap \<noteq> None
                    then clearCountdown (acc2\<lparr> etaSeconds := None \<rparr>)
                    else acc2)
        in acc3)"

text \<open>The callback of the countdown interval, run once per second per live interval.\<close>

definition countdown_tick :: "lite \<Rightarrow> lite" where
  "countdown_tick st =
     st\<lparr> etaSeconds :=
           (case etaSeconds st of
              None \<Rightarrow> None
            | Some prev \<Rightarrow> if prev \<le> 1 then Some 1 else Some (prev - 1)) \<rparr>"

definition danger_alert_effect :: "lite \<Rightarrow> lite \<Rightarrow> lite" where
  "danger_alert_effect snap acc =
     (if \<not> dangerAlertedRef acc \<and> stage snap = danger
      then acc\<lparr> dangerAlertedRef := True \<rparr>
      else acc)"

definition danger_since_effect :: "real \<Rightarrow> lite \<Rightarrow> lite \<Rightarrow> lite" where
  "danger_since_effect now snap acc =
     (if phase snap = rampUp \<and> stage snap = danger
      then (if dangerSinceRef acc = None then acc\<lparr> dangerSinceRef := Some now \<rparr> else acc)
      else acc\<lparr> dangerSinceRef := None \<rparr>)"

text \<open>
  The 250 ms tick. \<open>rnd\<close> holds the twelve values \<^verbatim>\<open>Math.random()\<close> returns, one per
  sensor key. The closure's \<^verbatim>\<open>phase\<close> and \<^verbatim>\<open>targets\<close> are those of the current render.
\<close>

definition tick_rain :: "SimPhase \<Rightarrow> real \<Rightarrow> real" where
  "tick_rain ph prev =
     (if ph = rampUp then min 100 (prev + RAMP_UP_STEP)
      else if ph = rampDown then max 0 (prev - RAMP_DOWN_STEP)
      else prev)"

definition ease1 :: "real \<Rightarrow> real \<Rightarrow> real \<Rightarrow> real" where
  "ease1 current target r =
     (let t = 0.2; j = 0.005;
          jitter = (r - 0.5) * j * (\<bar>target\<bar> + 1)
      in lerp current target t + jitter)"

definition tick_sensors :: "Sensors \<Rightarrow> Sensors \<Rightarrow> Sensors \<Rightarrow> Sensors" where
  "tick_sensors tg cur rnd =
     (let nxt = \<lparr> airTemp = ease1 (airTemp cur) (airTemp tg) (airTemp rnd),
                  humidity = ease1 (humidity cur) (humidity tg) (humidity rnd),
                  level = ease1 (level cur) (level tg) (level rnd),
                  flow = ease1 (flow cur) (flow tg) (flow rnd),
                  pressure = ease1 (pressure cur) (pressure tg) (pressure rnd),
                  wind = ease1 (wind cur) (wind tg) (wind rnd),
                  soil = ease1 (soil cur) (soil tg) (soil rnd),
                  turbidity = ease1 (turbidity cur) (turbidity tg) (turbidity rnd),
                  waterTemp = ease1 (waterTemp cur) (waterTemp tg) (waterTemp rnd),
                  upstreamLevel =
                    ease1 (upstreamLevel cur) (upstreamLevel tg) (upstreamLevel rnd),
                  rainRate = ease1 (rainRate cur) (rainRate tg) (rainRate rnd),
                  dischargeQ = ease1 (dischargeQ cur) (dischargeQ tg) (dischargeQ rnd) \<rparr>
      in nxt\<lparr> turbidity := max 0 (turbidity nxt),
              humidity := clamp01 (humidity nxt / 100) * 100,
              soil := clamp01 (soil nxt / 100) * 100 \<rparr>)"

definition tick :: "Sensors \<Rightarrow> lite \<Rightarrow> lite" where
  "tick rnd st =
     st\<lparr> rain := tick_rain (phase st) (rain st),
         S := tick_sensors (targets (rain st)) (S st) rnd \<rparr>"

text \<open>The rampUp to peakHold effect; \<open>now\<close> is \<^verbatim>\<open>performance.now()\<close>.\<close>

definition peak_effect :: "real \<Rightarrow> lite \<Rightarrow> lite \<Rightarrow> lite" where
  "peak_effect now snap acc =
     (if phase snap \<noteq> rampUp \<or> peakHoldTimerRef acc \<noteq> None then acc
      else
        let inDangerForMs = (case dangerSinceRef acc of Some t \<Rightarrow> now - t | None \<Rightarrow> 0);
            rampUpForMs = (case rampUpSinceRef acc of Some t \<Rightarrow> now - t | None \<Rightarrow> 0);
            sustainedDanger = (inDangerForMs \<ge> 3000);
            sustainedRain = (rain snap \<ge> 99);
            maxRampUpPassed = (rampUpForMs \<ge> 60000)
        in if lkRef acc \<ge> PEAK_NOW_PCT \<or> sustainedDanger \<or> sustainedRain \<or> maxRampUpPassed
           then acc\<lparr> phase := peakHold, rain := 100, etaNow := True, etaSeconds := None,
                     peakHoldTimerRef := Some (nextTimerId acc),
                     timeouts := insert (nextTimerId acc) (timeouts acc),
                     nextTimerId := nextTimerId acc + 1 \<rparr>
           else acc)"

text \<open>The callback of the peak-hold timeout with handle \<open>h\<close>, 15 s after it was set.\<close>

definition peak_timeout :: "nat \<Rightarrow> lite \<Rightarrow> lite" where
  "peak_timeout h st =
     st\<lparr> timeouts := timeouts st - {h}, peakHoldTimerRef := None, phase := rampDown,
         etaNow := False, etaSeconds := None \<rparr>"

definition onStartDemo :: "real \<Rightarrow> lite \<Rightarrow> lite" where
  "onStartDemo now st =
     st\<lparr> phase := rampUp, etaSeconds := None, etaNow := False, dangerAlertedRef := False,
         rampUpSinceRef := Some now, dangerSinceRef := None \<rparr>"

text \<open>
  The "Start Demo Mode" button: its click handler is \<^verbatim>\<open>onStartDemo\<close> and it is rendered
  with \<^verbatim>\<open>disabled={phase !== "idle"}\<close>, so a press outside idle does nothing.
\<close>

definition start_demo :: "real \<Rightarrow> lite \<Rightarrow> lite" where
  "start_demo now st = (if phase st = idle then onStartDemo now st else st)"

definition statusLabel :: "lite \<Rightarrow> StatusLabel" where
  "statusLabel st =
     (if phase st = rampDown \<and> stage st = subsiding then SUBSIDING
      else stageToStatusLabel (stage st))"

text \<open>
  One pass of effects after a render. React runs the effects whose dependencies changed,
  in the order they are declared; \<open>sel\<close> is the set of effects that run in this pass.
\<close>

datatype effect = LkEffect | StageEffect | EtaEffect | DangerAlertEffect
  | DangerSinceEffect | PeakEffect

definition run_effects :: "effect set \<Rightarrow> real \<Rightarrow> lite \<Rightarrow> lite" where
  "run_effects sel now snap =
     (let a1 = (if LkEffect \<in> sel then lk_effect snap snap else snap);
          a2 = (if StageEffect \<in> sel then stage_effect snap a1 else a1);
          a3 = (if EtaEffect \<in> sel then eta_effect snap a2 else a2);
          a4 = (if DangerAlertEffect \<in> sel then danger_alert_effect snap a3 else a3);
          a5 = (if DangerSinceEffect \<in> sel then danger_since_effect now snap a4 else a4);
          a6 = (if PeakEffect \<in> sel then peak_effect now snap a5 else a5)
      in a6)"

text \<open>
  The scripted surface as a transition system: a sensor tick (with random values in
  [0, 1)), a countdown interval firing, a peak-hold timeout firing, a press of the
  "start demo" button, and a pass of effects. Each transition is one batch of state updates; a pass of
  effects takes the state it starts from as its snapshot.
\<close>

text \<open>The range invariant of the ETA display.\<close>

definition eta_ok :: "lite \<Rightarrow> bool" where
  "eta_ok st =
     ((etaNow st \<longrightarrow> etaSeconds st = None) \<and>
      (\<forall>n. etaSeconds st = Some n \<longrightarrow> 1 \<le> n \<and> n \<le> COUNTDOWN_START_S))"

text \<open>
  The peak-hold timeout is pending exactly while its ref is set, and then the phase is
  peakHold.
\<close>

definition peak_timer_ok :: "lite \<Rightarrow> bool" where
  "peak_timer_ok st =
     (timeouts st = (case peakHoldTimerRef st of None \<Rightarrow> {} | Some h \<Rightarrow> {h}) \<and>
      (peakHoldTimerRef st \<noteq> None \<longrightarrow> phase st = peakHold))"

text \<open>
  A state in the peak hold: the demo is started at time 0 and the ramp-up fallback enters
  peakHold at 60 s, setting the 15 s timeout (handle 1).
\<close>

definition in_peakHold :: lite where
  "in_peakHold = run_effects {PeakEffect} 60000 (onStartDemo 0 init)"

text \<open>
  States around the countdown window: the likelihood at 96 with nothing displayed, the
  same state once the ETA effect has started the countdown, and that counting state with
  the likelihood fallen to 94.
\<close>

definition entering_window :: lite where
  "entering_window = init\<lparr> phase := rampUp, lk := 96, lkRef := 96 \<rparr>"

definition counting :: lite where
  "counting = eta_effect entering_window entering_window"

definition dropped :: lite where
  "dropped = counting\<lparr> lk := 94, lkRef := 94 \<rparr>"

text \<open>A state in peak hold: "now" is shown and the likelihood is 97.\<close>

definition now_in_window :: lite where
  "now_in_window = init\<lparr> phase := peakHold, rain := 100, lk := 97, lkRef := 97,
                         stage := danger, etaNow := True \<rparr>"

definition unit_interval :: "real \<Rightarrow> bool" where
  "unit_interval r = (0 \<le> r \<and> r < 1)"

definition random_ok :: "Sensors \<Rightarrow> bool" where
  "random_ok rnd =
     (unit_interval (airTemp rnd) \<and> unit_interval (humidity rnd) \<and>
      unit_interval (level rnd) \<and> unit_interval (flow rnd) \<and>
      unit_interval (pressure rnd) \<and> unit_interval (wind rnd) \<and>
      unit_interval (soil rnd) \<and> unit_interval (turbidity rnd) \<and>
      unit_interval (waterTemp rnd) \<and> unit_interval (upstreamLevel rnd) \<and>
      unit_interval (rainRate rnd) \<and> unit_interval (dischargeQ rnd))"

inductive step :: "lite \<Rightarrow> lite \<Rightarrow> bool" where
  step_tick: "random_ok rnd \<Longrightarrow> step st (tick rnd st)"
| step_countdown: "h \<in> intervals st \<Longrightarrow> step st (countdown_tick st)"
| step_peak_timeout: "h \<in> timeouts st \<Longrightarrow> step st (peak_timeout h st)"
| step_start: "step st (start_demo now st)"
| step_effects: "step st (run_effects sel now st)"

inductive reachable :: "lite \<Rightarrow> bool" where
  reachable_init: "reachable init"
| reachable_step: "reachable st \<Longrightarrow> step st st' \<Longrightarrow> reachable st'"

section \<open>control.tsx: status, likelihood and the scripted mode\<close>

text \<open>
  The manual surface does not bucket a likelihood: its \<^verbatim>\<open>status\<close> is read off the river
  level and the rain slider, and its \<^verbatim>\<open>likelihood\<close> is a separate weighted score. Only
  the entries of \<^verbatim>\<open>BASE\<close> and \<^verbatim>\<open>GAIN\<close> that these use are written out.
\<close>

definition BASE_level_control :: real where "BASE_level_control = 0.35"
definition BASE_flow_control :: real where "BASE_flow_control = 0.60"
definition GAIN_levelRise :: real where "GAIN_levelRise = 0.70"
definition GAIN_flowRise :: real where "GAIN_flowRise = 1.40"

definition clamp :: "real \<Rightarrow> real \<Rightarrow> real \<Rightarrow> real" where
  "clamp v a b = min b (max a v)"

definition easePow_control :: "real \<Rightarrow> real \<Rightarrow> real" where
  "easePow_control x p = (clamp x 0 1) powr p"

text \<open>The level target \<^verbatim>\<open>targets.tLvl\<close> for a rain level.\<close>

definition tLvl :: "real \<Rightarrow> real" where
  "tLvl rain_pct =
     (let x = rain_pct / 100; x3 = easePow_control x 1.9
      in BASE_level_control + GAIN_levelRise * x3)"

definition likelihood_control :: "jsnum \<Rightarrow> real \<Rightarrow> real \<Rightarrow> real \<Rightarrow> int" where
  "likelihood_control etaSec lvl rain_pct flw =
     (let timeScore = (case etaSec of Fin e \<Rightarrow> clamp (1 - e / 60) 0 1 | _ \<Rightarrow> 0);
          levelScore = clamp (lvl / FLOOD_LEVEL) 0 1;
          rainScore = rain_pct / 100;
          flowScore = clamp ((flw - BASE_flow_control) / GAIN_flowRise) 0 1
      in round (100 * (0.40 * timeScore + 0.25 * levelScore + 0.20 * rainScore
                       + 0.15 * flowScore)))"

definition status_control :: "real \<Rightarrow> real \<Rightarrow> StatusLabel" where
  "status_control lvl rain_pct =
     (if lvl \<ge> FLOOD_LEVEL \<or> rain_pct \<ge> 90 then DANGER
      else if lvl \<ge> 0.85 \<or> rain_pct \<ge> 75 then WARNING
      else if lvl \<ge> 0.70 \<or> rain_pct \<ge> 50 then WATCH
      else NORMAL)"

datatype PMState = PM_idle | rampingUp | waitingFlood | holding | rampingDown

datatype FloodAction = SET_RAIN_LEVEL real | TRIGGER_STATE string | SCRIPT string

text \<open>
  The state \<^verbatim>\<open>startPMMode\<close> and \<^verbatim>\<open>resetPM\<close> touch: the mode, the rain level, the two
  timer refs and the hold flag, with the live intervals and timeouts of the browser and
  the actions sent on the bus.
\<close>

record pm_state =
  pm :: PMState
  pm_rain :: real
  rampIntervalRef :: "nat option"
  holdTimeoutRef :: "nat option"
  didStartHoldRef :: bool
  pm_intervals :: "nat set"
  pm_timeouts :: "nat set"
  pm_nextTimerId :: nat
  sent :: "FloodAction list"

definition clearRamp :: "pm_state \<Rightarrow> pm_state" where
  "clearRamp s =
     (case rampIntervalRef s of
        None \<Rightarrow> s
      | Some h \<Rightarrow>
          if h = 0 then s
          else s\<lparr> pm_intervals := pm_intervals s - {h}, rampIntervalRef := None \<rparr>)"

definition clearHold :: "pm_state \<Rightarrow> pm_state" where
  "clearHold s =
     (case holdTimeoutRef s of
        None \<Rightarrow> s
      | Some h \<Rightarrow>
          if h = 0 then s
          else s\<lparr> pm_timeouts := pm_timeouts s - {h}, holdTimeoutRef := None \<rparr>)"

definition resetPM :: "pm_state \<Rightarrow> pm_state" where
  "resetPM s = (clearHold (clearRamp s))\<lparr> didStartHoldRef := False, pm := PM_idle \<rparr>"

definition startPMMode :: "pm_state \<Rightarrow> pm_state" where
  "startPMMode s =
     (let s1 = resetPM s;
          s2 = s1\<lparr> pm_rain := 0, pm := rampingUp, sent := sent s1 @ [SCRIPT ''PM_MODE''] \<rparr>
      in s2\<lparr> rampIntervalRef := Some (pm_nextTimerId s2),
              pm_intervals := insert (pm_nextTimerId s2) (pm_intervals s2),
              pm_nextTimerId := pm_nextTimerId s2 + 1 \<rparr>)"

text \<open>
  No timer is live other than the one each ref holds, and handles are positive. (A hold
  timeout that has fired leaves its handle in the ref.)
\<close>

definition pm_timers_ok :: "pm_state \<Rightarrow> bool" where
  "pm_timers_ok s =
     (pm_intervals s \<subseteq> (case rampIntervalRef s of None \<Rightarrow> {} | Some h \<Rightarrow> {h}) \<and>
      pm_timeouts s \<subseteq> (case holdTimeoutRef s of None \<Rightarrow> {} | Some h \<Rightarrow> {h}) \<and>
      rampIntervalRef s \<noteq> Some 0 \<and> holdTimeoutRef s \<noteq> Some 0 \<and> 0 < pm_nextTimerId s)"

text \<open>The manual surface during its 20 s hold, the hold timeout (handle 3) pending.\<close>

definition pm_holding :: pm_state where
  "pm_holding = \<lparr> pm = holding, pm_rain = 100, rampIntervalRef = None,
                   holdTimeoutRef = Some 3, didStartHoldRef = True, pm_intervals = {},
                   pm_timeouts = {3}, pm_nextTimerId = 4, sent = [SCRIPT ''PM_MODE''] \<rparr>"

section \<open>sky-ov: sanitising an incoming snapshot\<close>

text \<open>
  \<^verbatim>\<open>SkyData\<close>, and the object \<^verbatim>\<open>normalizeSky\<close> receives as \<^verbatim>\<open>input\<close>. At run time the
  input is whatever the bus delivered, so each of its three fields is a value of any
  primitive type (\<open>JUndefined\<close> when the field is missing); \<open>None\<close> stands for an input
  that is undefined or has none of the fields. The field \<^verbatim>\<open>etaSeconds\<close> is written
  \<open>etaSeconds_sky\<close> here.
\<close>

datatype jsval = JUndefined | JNull | JBool bool | JNum jsnum | JStr string

record SkyData =
  floodLikelihoodPct :: jsnum
  etaSeconds_sky :: jsnum
  status :: "string option"

record PartialSky =
  in_floodLikelihoodPct :: jsval
  in_etaSeconds :: jsval
  in_status :: jsval

text \<open>
  The conversion of a string to a number that \<^verbatim>\<open>Number\<close> applies: white space is
  trimmed, the empty string is 0, and the rest must be a binary, octal or hexadecimal
  integer (\<^verbatim>\<open>0b\<close>, \<^verbatim>\<open>0o\<close>, \<^verbatim>\<open>0x\<close>), or an optionally signed \<^verbatim>\<open>Infinity\<close> or decimal
  literal with optional fraction and exponent; anything else is NaN. Strings are lists of
  8-bit characters, and the value of a literal is its exact real value (it is not rounded
  and does not overflow to an infinity).
\<close>

definition isStrWhiteSpaceChar :: "char \<Rightarrow> bool" where
  "isStrWhiteSpaceChar c =
     (let n = (of_char c :: nat)
      in n = 9 \<or> n = 10 \<or> n = 11 \<or> n = 12 \<or> n = 13 \<or> n = 32 \<or> n = 160)"

definition trim :: "string \<Rightarrow> string" where
  "trim s = rev (dropWhile isStrWhiteSpaceChar (rev (dropWhile isStrWhiteSpaceChar s)))"

definition digit_value :: "char \<Rightarrow> nat option" where
  "digit_value c =
     (let n = (of_char c :: nat)
      in if 48 \<le> n \<and> n \<le> 57 then Some (n - 48)
         else if 97 \<le> n \<and> n \<le> 102 then Some (n - 87)
         else if 65 \<le> n \<and> n \<le> 70 then Some (n - 55)
         else None)"

definition is_digit :: "nat \<Rightarrow> char \<Rightarrow> bool" where
  "is_digit b c = (case digit_value c of None \<Rightarrow> False | Some d \<Rightarrow> d < b)"

fun digits_value :: "nat \<Rightarrow> nat \<Rightarrow> string \<Rightarrow> nat" where
  "digits_value b acc [] = acc"
| "digits_value b acc (c # cs) =
     digits_value b (acc * b + (case digit_value c of None \<Rightarrow> 0 | Some d \<Rightarrow> d)) cs"

definition digits :: "nat \<Rightarrow> string \<Rightarrow> nat option" where
  "digits b s = (if s \<noteq> [] \<and> list_all (is_digit b) s then Some (digits_value b 0 s) else None)"

definition ExponentPart :: "string \<Rightarrow> int option" where
  "ExponentPart s =
     (case s of
        [] \<Rightarrow> Some 0
      | c # r \<Rightarrow>
          if c = CHR ''e'' \<or> c = CHR ''E'' then
            (case r of
               [] \<Rightarrow> None
             | d # ds \<Rightarrow>
                 if d = CHR ''+'' then map_option int (digits 10 ds)
                 else if d = CHR ''-'' then map_option (\<lambda>n. - int n) (digits 10 ds)
                 else map_option int (digits 10 r))
          else None)"

definition scale10 :: "real \<Rightarrow> int \<Rightarrow> real" where
  "scale10 m e = (if 0 \<le> e then m * 10 ^ nat e else m / 10 ^ nat (- e))"

definition StrUnsignedDecimalLiteral :: "string \<Rightarrow> jsnum" where
  "StrUnsignedDecimalLiteral s =
     (if s = ''Infinity'' then PosInf
      else
        let ip = takeWhile (is_digit 10) s;
            r1 = dropWhile (is_digit 10) s;
            dot = (r1 \<noteq> [] \<and> hd r1 = CHR ''.'');
            fp = (if dot then takeWhile (is_digit 10) (tl r1) else []);
            r2 = (if dot then dropWhile (is_digit 10) (tl r1) else r1)
        in if ip = [] \<and> fp = [] then NaN
           else
             (case ExponentPart r2 of
                None \<Rightarrow> NaN
              | Some e \<Rightarrow>
                  Fin (scale10 (real (digits_value 10 0 ip)
                                + real (digits_value 10 0 fp) / 10 ^ length fp) e)))"

definition NonDecimalIntegerLiteral :: "string \<Rightarrow> jsnum option" where
  "NonDecimalIntegerLiteral s =
     (case s of
        z # p # ds \<Rightarrow>
          if z = CHR ''0'' \<and> (p = CHR ''b'' \<or> p = CHR ''B'') then
            Some (case digits 2 ds of None \<Rightarrow> NaN | Some v \<Rightarrow> Fin (real v))
          else if z = CHR ''0'' \<and> (p = CHR ''o'' \<or> p = CHR ''O'') then
            Some (case digits 8 ds of None \<Rightarrow> NaN | Some v \<Rightarrow> Fin (real v))
          else if z = CHR ''0'' \<and> (p = CHR ''x'' \<or> p = CHR ''X'') then
            Some (case digits 16 ds of None \<Rightarrow> NaN | Some v \<Rightarrow> Fin (real v))
          else None
      | _ \<Rightarrow> None)"

definition minus_js :: "jsnum \<Rightarrow> jsnum" where
  "minus_js x = (case x of Fin r \<Rightarrow> Fin (- r) | PosInf \<Rightarrow> NegInf | NegInf \<Rightarrow> PosInf | NaN \<Rightarrow> NaN)"

definition StringToNumber :: "string \<Rightarrow> jsnum" where
  "StringToNumber str =
     (let s = trim str
      in if s = [] then Fin 0
         else
           (case NonDecimalIntegerLiteral s of
              Some v \<Rightarrow> v
            | None \<Rightarrow>
                if hd s = CHR ''+'' then StrUnsignedDecimalLiteral (tl s)
                else if hd s = CHR ''-'' then minus_js (StrUnsignedDecimalLiteral (tl s))
                else StrUnsignedDecimalLiteral s))"

text \<open>\<^verbatim>\<open>Number(x)\<close> on a primitive value.\<close>

fun Number_js :: "jsval \<Rightarrow> jsnum" where
  "Number_js JUndefined = NaN"
| "Number_js JNull = Fin 0"
| "Number_js (JBool b) = Fin (if b then 1 else 0)"
| "Number_js (JNum n) = n"
| "Number_js (JStr s) = StringToNumber s"

text \<open>The optional chains \<^verbatim>\<open>input?.floodLikelihoodPct\<close>, \<^verbatim>\<open>input?.etaSeconds\<close>, \<^verbatim>\<open>input?.status\<close>.\<close>

definition input_pct :: "PartialSky option \<Rightarrow> jsval" where
  "input_pct input = (case input of None \<Rightarrow> JUndefined | Some i \<Rightarrow> in_floodLikelihoodPct i)"

definition input_eta :: "PartialSky option \<Rightarrow> jsval" where
  "input_eta input = (case input of None \<Rightarrow> JUndefined | Some i \<Rightarrow> in_etaSeconds i)"

definition input_status :: "PartialSky option \<Rightarrow> jsval" where
  "input_status input = (case input of None \<Rightarrow> JUndefined | Some i \<Rightarrow> in_status i)"

definition normalizeSky :: "PartialSky option \<Rightarrow> SkyData \<Rightarrow> SkyData" where
  "normalizeSky input prev =
     (let pct = Number_js (input_pct input);
          eta = Number_js (input_eta input)
      in \<lparr> floodLikelihoodPct =
             (case pct of
                Fin x \<Rightarrow> Fin (min 100 (max 0 (of_int (round x))))
              | _ \<Rightarrow> floodLikelihoodPct prev),
           etaSeconds_sky =
             (case eta of
                Fin x \<Rightarrow> Fin (max 0 (of_int \<lfloor>x\<rfloor>))
              | _ \<Rightarrow> etaSeconds_sky prev),
           status =
             (case input_status input of
                JStr s \<Rightarrow> Some s
              | _ \<Rightarrow> status prev) \<rparr>)"

text \<open>The initial state of \<^verbatim>\<open>useSkyFromBusWithDemo\<close>.\<close>

definition sky_default :: SkyData where
  "sky_default = \<lparr> floodLikelihoodPct = Fin 10, etaSeconds_sky = Fin 600,
                   status = Some ''NORMAL'' \<rparr>"

section \<open>sensorBus: publishing and late subscription\<close>

record RiverSensors =
  waterLevelM :: real
  flowRateMs :: real
  rainfallMmHr :: real
  tempC :: real
  humidityPct :: real
  pressureHpa :: real

text \<open>
  What a subscriber's callback is handed. A sky snapshot arrives as a plain object, by
  one of two routes. The channel copies the published \<^verbatim>\<open>SkyData\<close> as it is. The store
  holds \<^verbatim>\<open>JSON.stringify\<close> of it and the subscriber gets \<^verbatim>\<open>JSON.parse\<close> of that: a finite
  number and a string come back unchanged, a NaN or infinite number comes back as
  \<^verbatim>\<open>null\<close>, and an undefined status is dropped. The river readings are finite numbers,
  which both routes leave unchanged.
\<close>

datatype payload = RiverPayload RiverSensors | SkyPayload PartialSky

definition clone_sky :: "SkyData \<Rightarrow> PartialSky" where
  "clone_sky d =
     \<lparr> in_floodLikelihoodPct = JNum (floodLikelihoodPct d),
       in_etaSeconds = JNum (etaSeconds_sky d),
       in_status = (case status d of None \<Rightarrow> JUndefined | Some s \<Rightarrow> JStr s) \<rparr>"

definition json_number :: "jsnum \<Rightarrow> jsval" where
  "json_number n = (case n of Fin x \<Rightarrow> JNum (Fin x) | _ \<Rightarrow> JNull)"

definition json_sky :: "SkyData \<Rightarrow> PartialSky" where
  "json_sky d =
     \<lparr> in_floodLikelihoodPct = json_number (floodLikelihoodPct d),
       in_etaSeconds = json_number (etaSeconds_sky d),
       in_status = (case status d of None \<Rightarrow> JUndefined | Some s \<Rightarrow> JStr s) \<rparr>"

text \<open>
  The bus as the subscribing surfaces see it, the publisher being another browsing
  context: whether a \<^verbatim>\<open>BroadcastChannel\<close> can be constructed, whether \<^verbatim>\<open>localStorage\<close>
  calls succeed (they are wrapped in \<^verbatim>\<open>try\<close>/\<^verbatim>\<open>catch\<close>), the stored records
  \<^verbatim>\<open>{ t, data }\<close> by key as \<^verbatim>\<open>JSON.parse\<close> reads them back, the registered message
  listeners (by the kind they accept) and storage listeners (by key), and the log of
  callback invocations \<^verbatim>\<open>cb(data)\<close>, each with the number of the subscriber called.
\<close>

record bus =
  channelOk :: bool
  storageOk :: bool
  localStorage :: "string \<rightharpoonup> (real \<times> payload)"
  messageListeners :: "(nat \<times> string) list"
  storageListeners :: "(nat \<times> string) list"
  calls :: "(nat \<times> payload) list"

text \<open>
  The listeners called for a message of a kind, or for a storage change of a key. The
  storage event the publisher dispatches in its own window carries no \<^verbatim>\<open>newValue\<close> and is
  ignored by \<^verbatim>\<open>onStorage\<close>; the one the browser raises in the other contexts carries it.
\<close>

definition deliver :: "(nat \<times> string) list \<Rightarrow> string \<Rightarrow> payload \<Rightarrow> (nat \<times> payload) list" where
  "deliver ls k d = map (\<lambda>(i, _). (i, d)) (filter (\<lambda>(_, k'). k' = k) ls)"

definition publishSensors :: "real \<Rightarrow> RiverSensors \<Rightarrow> bus \<Rightarrow> bus" where
  "publishSensors now d b =
     (let b1 = (if channelOk b
                then b\<lparr> calls := calls b @ deliver (messageListeners b) ''river'' (RiverPayload d) \<rparr>
                else b)
      in if storageOk b1
         then b1\<lparr> localStorage := (localStorage b1)(''fs_river_sensors'' \<mapsto> (now, RiverPayload d)),
                 calls := calls b1
                   @ deliver (storageListeners b1) ''fs_river_sensors'' (RiverPayload d) \<rparr>
         else b1)"


definition publishSky :: "real \<Rightarrow> SkyData \<Rightarrow> bus \<Rightarrow> bus" where
  "publishSky now d b =
     (let b1 = (if channelOk b
                then b\<lparr> calls := calls b
                          @ deliver (messageListeners b) ''sky'' (SkyPayload (clone_sky d)) \<rparr>
                else b)
      in if storageOk b1
         then b1\<lparr> localStorage := (localStorage b1)(''fs_sky'' \<mapsto> (now, SkyPayload (json_sky d))),
                 calls := calls b1
                   @ deliver (storageListeners b1) ''fs_sky'' (SkyPayload (json_sky d)) \<rparr>
         else b1)"


text \<open>A history of publishes, and the last payload of each kind in it.\<close>

datatype publish = PublishSensors real RiverSensors | PublishSky real SkyData

fun publish1 :: "publish \<Rightarrow> bus \<Rightarrow> bus" where
  "publish1 (PublishSensors now d) b = publishSensors now d b"
| "publish1 (PublishSky now d) b = publishSky now d b"

fun publishes :: "publish list \<Rightarrow> bus \<Rightarrow> bus" where
  "publishes [] b = b"
| "publishes (p # ps) b = publishes ps (publish1 p b)"









text \<open>
  Incoming snapshots: one with both numbers finite but out of range; one with a NaN
  likelihood, no ETA and a status string outside the enum; and one as the store delivers
  it after a NaN likelihood was published, with the ETA as a string.
\<close>

definition out_of_range :: PartialSky where
  "out_of_range = \<lparr> in_floodLikelihoodPct = JNum (Fin 150), in_etaSeconds = JNum (Fin (-5)),
                    in_status = JUndefined \<rparr>"

definition not_finite :: PartialSky where
  "not_finite = \<lparr> in_floodLikelihoodPct = JNum NaN, in_etaSeconds = JUndefined,
                  in_status = JStr ''BANANA'' \<rparr>"


section \<open>Theorems\<close>

text \<open>
  C1 (as amended). When the current level is strictly above \<^const>\<open>FLOOD_LEVEL\<close>, the
  predictor returns 0 exactly when the target level is also strictly above the threshold;
  when the target is at or below the threshold the first guard wins and the result is
  positive infinity ("no flood expected").
\<close>

theorem etaToFloodSeconds_above_flood:
  "FLOOD_LEVEL < currentLevel \<Longrightarrow>
     etaToFloodSeconds currentLevel targetLevel =
       (if FLOOD_LEVEL < targetLevel then Fin 0 else PosInf)"
  by (simp add: etaToFloodSeconds_def Let_def)

theorem etaToFloodSeconds_above_flood_witness:
  "FLOOD_LEVEL < 1.02 \<and> etaToFloodSeconds 1.02 1.05 = Fin 0
     \<and> etaToFloodSeconds 1.02 0.9 = PosInf"
  using etaToFloodSeconds_above_flood [of "1.02" "1.05"]
        etaToFloodSeconds_above_flood [of "1.02" "0.9"]
  by (simp add: FLOOD_LEVEL_def)

text \<open>
  C1 as stated fails: with the current level 1.5 above the threshold and the target 0.5
  below it, the predictor returns positive infinity, not 0.
\<close>

theorem etaToFloodSeconds_counterexample:
  "FLOOD_LEVEL < 1.5 \<and> etaToFloodSeconds 1.5 0.5 \<noteq> Fin 0"
  by (simp add: etaToFloodSeconds_def FLOOD_LEVEL_def Let_def)


subsection \<open>The stage effect\<close>

lemma bucket_cases:
  "bucket p = (if p < 40 then normal else if p \<le> 69 then watch
               else if p \<le> 79 then warning else danger)"
  by (simp add: bucket_def DANGER_MIN_def WARNING_MIN_def WATCH_MIN_def)

lemma stage_stage_effect:
  "stage (stage_effect snap acc) =
     (if phase snap = rampDown \<and> \<not> close (S snap) then subsiding
      else bucket (round (lk snap)))"
  by (simp add: stage_effect_def Let_def)

lemma phase_stage_effect:
  "phase (stage_effect snap acc) =
     (if phase snap = rampDown \<and> close (S snap) then idle else phase acc)"
  by (simp add: stage_effect_def Let_def)


text \<open>
  C3 (as amended), on the scripted surface. When the subsiding override does not apply
  (the phase is not rampDown, or the sensors are close to baseline), the stage effect
  rounds the likelihood to the nearest integer \<open>p\<close> and the status shown is NORMAL for
  \<open>p < 40\<close>, WATCH for \<open>40 \<le> p \<le> 69\<close>, WARNING for \<open>70 \<le> p \<le> 79\<close> and DANGER for
  \<open>p \<ge> 80\<close>; every integer falls in one of the four ranges.
\<close>

theorem stage_effect_buckets:
  "\<not> (phase st = rampDown \<and> \<not> close (S st)) \<Longrightarrow>
     (let p = round (lk st); l = statusLabel (stage_effect st st) in
        (p < 40 \<longrightarrow> l = NORMAL) \<and>
        (40 \<le> p \<and> p \<le> 69 \<longrightarrow> l = WATCH) \<and>
        (70 \<le> p \<and> p \<le> 79 \<longrightarrow> l = WARNING) \<and>
        (80 \<le> p \<longrightarrow> l = DANGER) \<and>
        (p < 40 \<or> (40 \<le> p \<and> p \<le> 69) \<or> (70 \<le> p \<and> p \<le> 79) \<or> 80 \<le> p))"
  by (auto simp: statusLabel_def stage_stage_effect phase_stage_effect bucket_cases Let_def)

theorem stage_effect_buckets_witness:
  "\<not> (phase (init\<lparr> lk := 69.5 \<rparr>) = rampDown \<and> \<not> close (S (init\<lparr> lk := 69.5 \<rparr>)))
   \<and> round (69.5 :: real) = 70
   \<and> statusLabel (stage_effect (init\<lparr> lk := 69.5 \<rparr>) (init\<lparr> lk := 69.5 \<rparr>)) = WARNING
   \<and> round (39.4 :: real) = 39
   \<and> statusLabel (stage_effect (init\<lparr> lk := 39.4 \<rparr>) (init\<lparr> lk := 39.4 \<rparr>)) = NORMAL"
  using stage_effect_buckets [of "init\<lparr> lk := 69.5 \<rparr>"]
        stage_effect_buckets [of "init\<lparr> lk := 39.4 \<rparr>"]
  by (simp add: init_def Let_def round_def)

lemma tLvl_50_below_flood: "tLvl 50 \<le> FLOOD_LEVEL"
proof -
  have "(1 / 2 :: real) powr 1.9 \<le> (1 / 2) powr 1"
    by (rule powr_mono') simp_all
  then have "(1 / 2 :: real) powr 1.9 \<le> 1 / 2" by simp
  then show ?thesis
    by (simp add: tLvl_def easePow_control_def clamp_def BASE_level_control_def
          GAIN_levelRise_def FLOOD_LEVEL_def Let_def)
qed

text \<open>
  C3 as stated fails on the manual surface, whose status does not come from a likelihood:
  with the slider at 50 and the sensors still at baseline (level 0.35, flow 0.60) no flood
  is expected, the likelihood is 19, and the status is WATCH, not NORMAL.
\<close>

theorem status_control_counterexample:
  "etaToFloodSeconds 0.35 (tLvl 50) = PosInf \<and>
   likelihood_control (etaToFloodSeconds 0.35 (tLvl 50)) 0.35 50 0.60 = 19 \<and>
   status_control 0.35 50 = WATCH"
proof -
  have e: "etaToFloodSeconds 0.35 (tLvl 50) = PosInf"
    using tLvl_50_below_flood by (simp add: etaToFloodSeconds_def)
  have "likelihood_control PosInf 0.35 50 0.60 = 19"
    by (simp add: likelihood_control_def clamp_def FLOOD_LEVEL_def BASE_flow_control_def
          GAIN_flowRise_def round_def)
  moreover have "status_control 0.35 50 = WATCH"
    by (simp add: status_control_def FLOOD_LEVEL_def)
  ultimately show ?thesis using e by simp
qed



subsection \<open>The ETA display in every reachable state\<close>

lemma clearCountdown_eta [simp]:
  "etaSeconds (clearCountdown a) = etaSeconds a" "etaNow (clearCountdown a) = etaNow a"
  by (simp_all add: clearCountdown_def split: option.split)

lemma eta_ok_lk_effect: "eta_ok acc \<Longrightarrow> eta_ok (lk_effect snap acc)"
  by (simp add: eta_ok_def lk_effect_def Let_def)

lemma etaNow_lk_effect: "etaNow (lk_effect snap acc) = etaNow acc"
  by (simp add: lk_effect_def Let_def)

lemma eta_ok_stage_effect: "eta_ok acc \<Longrightarrow> eta_ok (stage_effect snap acc)"
  by (simp add: eta_ok_def stage_effect_def Let_def)

lemma etaNow_stage_effect: "etaNow (stage_effect snap acc) \<Longrightarrow> etaNow acc"
  by (simp add: stage_effect_def Let_def split: if_splits)

text \<open>
  The ETA effect starts a countdown only when the snapshot does not show "now"; no
  earlier effect of the pass sets "now", so the pending state does not show it either.
\<close>

lemma eta_ok_eta_effect:
  assumes "eta_ok acc" and "\<not> etaNow snap \<longrightarrow> \<not> etaNow acc"
  shows "eta_ok (eta_effect snap acc)"
proof (cases "etaNow snap")
  case True
  with assms(1) show ?thesis by (simp add: eta_effect_def eta_ok_def)
next
  case False
  with assms(2) have "\<not> etaNow acc" by simp
  with assms(1) False show ?thesis
    by (simp add: eta_effect_def eta_ok_def Let_def COUNTDOWN_START_S_def)
qed

lemma eta_ok_danger_alert_effect: "eta_ok acc \<Longrightarrow> eta_ok (danger_alert_effect snap acc)"
  by (simp add: eta_ok_def danger_alert_effect_def)

lemma eta_ok_danger_since_effect: "eta_ok acc \<Longrightarrow> eta_ok (danger_since_effect now snap acc)"
  by (simp add: eta_ok_def danger_since_effect_def)

lemma eta_ok_peak_effect: "eta_ok acc \<Longrightarrow> eta_ok (peak_effect now snap acc)"
  by (simp add: eta_ok_def peak_effect_def Let_def)

lemma eta_ok_run_effects:
  assumes "eta_ok st"
  shows "eta_ok (run_effects sel now st)"
proof -
  define a1 where "a1 = (if LkEffect \<in> sel then lk_effect st st else st)"
  define a2 where "a2 = (if StageEffect \<in> sel then stage_effect st a1 else a1)"
  define a3 where "a3 = (if EtaEffect \<in> sel then eta_effect st a2 else a2)"
  define a4 where "a4 = (if DangerAlertEffect \<in> sel then danger_alert_effect st a3 else a3)"
  define a5 where "a5 = (if DangerSinceEffect \<in> sel then danger_since_effect now st a4 else a4)"
  have r: "run_effects sel now st = (if PeakEffect \<in> sel then peak_effect now st a5 else a5)"
    by (simp add: run_effects_def Let_def a1_def a2_def a3_def a4_def a5_def)
  have 1: "eta_ok a1" "etaNow a1 = etaNow st"
    using assms by (simp_all add: a1_def eta_ok_lk_effect etaNow_lk_effect)
  have 2: "eta_ok a2" "\<not> etaNow st \<longrightarrow> \<not> etaNow a2"
    using 1 etaNow_stage_effect [of st a1] by (auto simp: a2_def eta_ok_stage_effect)
  have 3: "eta_ok a3"
    using 2 by (simp add: a3_def eta_ok_eta_effect)
  have 4: "eta_ok a4"
    using 3 by (simp add: a4_def eta_ok_danger_alert_effect)
  have 5: "eta_ok a5"
    using 4 by (simp add: a5_def eta_ok_danger_since_effect)
  show ?thesis
    using 5 by (simp add: r eta_ok_peak_effect)
qed

lemma eta_ok_countdown_tick: "eta_ok st \<Longrightarrow> eta_ok (countdown_tick st)"
  by (auto simp: eta_ok_def countdown_tick_def COUNTDOWN_START_S_def split: option.splits)

lemma eta_ok_step: "step st st' \<Longrightarrow> eta_ok st \<Longrightarrow> eta_ok st'"
proof (induction rule: step.induct)
  case (step_tick rnd st)
  then show ?case by (simp add: eta_ok_def tick_def)
next
  case (step_countdown h st)
  then show ?case by (simp add: eta_ok_countdown_tick)
next
  case (step_peak_timeout h st)
  then show ?case by (simp add: eta_ok_def peak_timeout_def)
next
  case (step_start st now)
  then show ?case by (simp add: eta_ok_def start_demo_def onStartDemo_def)
next
  case (step_effects st sel now)
  then show ?case by (simp add: eta_ok_run_effects)
qed

lemma eta_ok_reachable: "reachable st \<Longrightarrow> eta_ok st"
proof (induction rule: reachable.induct)
  case reachable_init
  show ?case by (simp add: eta_ok_def init_def)
next
  case (reachable_step st st')
  then show ?case by (simp add: eta_ok_step)
qed

lemma in_peakHold_fields:
  "phase in_peakHold = peakHold" "etaNow in_peakHold" "etaSeconds in_peakHold = None"
  "peakHoldTimerRef in_peakHold = Some 1" "timeouts in_peakHold = {1}"
  by (simp_all add: in_peakHold_def run_effects_def peak_effect_def onStartDemo_def init_def
        Let_def PEAK_NOW_PCT_def)

lemma reachable_started: "reachable (onStartDemo 0 init)"
proof -
  have "start_demo 0 init = onStartDemo 0 init"
    by (simp add: start_demo_def init_def)
  then show ?thesis
    using reachable_step [OF reachable_init step_start [of init 0]] by simp
qed

lemma reachable_in_peakHold: "reachable in_peakHold"
  unfolding in_peakHold_def by (rule reachable_step [OF reachable_started step_effects])

text \<open>
  C7. In every reachable state of the scripted surface, the "now" flag excludes a numeric
  countdown (if \<open>etaNow\<close> holds then \<open>etaSeconds\<close> is null), and a countdown value that is
  present is non-negative.
\<close>

theorem now_excludes_countdown:
  "reachable st \<Longrightarrow>
     (etaNow st \<longrightarrow> etaSeconds st = None) \<and> (\<forall>n. etaSeconds st = Some n \<longrightarrow> 0 \<le> n)"
  using eta_ok_reachable [of st] by (fastforce simp: eta_ok_def)

theorem now_excludes_countdown_witness:
  "reachable in_peakHold \<and> etaNow in_peakHold \<and> etaSeconds in_peakHold = None"
  using now_excludes_countdown [OF reachable_in_peakHold]
  by (simp add: in_peakHold_fields reachable_in_peakHold)

subsection \<open>The countdown window\<close>

lemma eta_effect_start:
  assumes "\<not> etaNow st" "COUNTDOWN_START_PCT \<le> lkRef st" "lkRef st < PEAK_NOW_PCT"
    "etaSeconds st = None"
  shows "eta_effect st st =
           st\<lparr> etaSeconds := Some COUNTDOWN_START_S,
               countdownTimerRef := Some (nextTimerId st),
               intervals := insert (nextTimerId st) (intervals st),
               nextTimerId := nextTimerId st + 1 \<rparr>"
  using assms by (simp add: eta_effect_def Let_def COUNTDOWN_START_PCT_def PEAK_NOW_PCT_def)

lemma eta_effect_running:
  assumes "\<not> etaNow st" "COUNTDOWN_START_PCT \<le> lkRef st" "lkRef st < PEAK_NOW_PCT"
    "etaSeconds st \<noteq> None"
  shows "eta_effect st st = st"
  using assms by (auto simp: eta_effect_def Let_def COUNTDOWN_START_PCT_def PEAK_NOW_PCT_def)

lemma eta_effect_cancel:
  assumes "\<not> etaNow st" "lkRef st < COUNTDOWN_START_PCT" "etaSeconds st \<noteq> None"
  shows "eta_effect st st = clearCountdown (st\<lparr> etaSeconds := None \<rparr>)"
  using assms by (simp add: eta_effect_def Let_def COUNTDOWN_START_PCT_def PEAK_NOW_PCT_def)

lemma eta_effect_now:
  assumes "\<not> etaNow st" "PEAK_NOW_PCT \<le> lkRef st"
  shows "eta_effect st st = clearCountdown (st\<lparr> etaNow := True, etaSeconds := None \<rparr>)"
  using assms by (simp add: eta_effect_def Let_def COUNTDOWN_START_PCT_def PEAK_NOW_PCT_def)

lemma eta_effect_now_shown:
  "etaNow st \<Longrightarrow> etaSeconds (eta_effect st st) = etaSeconds st"
  by (simp add: eta_effect_def)

lemma clearCountdown_handle:
  "countdownTimerRef a = Some h \<Longrightarrow> 0 < h \<Longrightarrow>
     countdownTimerRef (clearCountdown a) = None \<and> h \<notin> intervals (clearCountdown a)"
  by (simp add: clearCountdown_def)

lemma counting_eq:
  "counting = entering_window\<lparr> etaSeconds := Some 20, countdownTimerRef := Some 1,
                intervals := {1}, nextTimerId := 2 \<rparr>"
  by (simp add: counting_def entering_window_def init_def eta_effect_def Let_def
        COUNTDOWN_START_PCT_def PEAK_NOW_PCT_def COUNTDOWN_START_S_def)

text \<open>
  C5 (as amended). Provided the "now" flag is not set: when the ETA effect runs with the
  likelihood in [95, 99) and no countdown displayed, it starts the countdown at 20 and
  creates one interval; when a countdown is already displayed it changes nothing; each
  firing of the interval (once per second) lowers the value by 1 and never below 1; at
  99 or more the display switches to "now" and the value is cleared; and when the
  likelihood is below 95 with a countdown displayed, the value is cleared and the
  interval is cancelled.
\<close>

theorem countdown_window:
  assumes "\<not> etaNow st"
  shows
    "(COUNTDOWN_START_PCT \<le> lkRef st \<and> lkRef st < PEAK_NOW_PCT \<and> etaSeconds st = None \<longrightarrow>
        etaSeconds (eta_effect st st) = Some 20 \<and>
        countdownTimerRef (eta_effect st st) = Some (nextTimerId st) \<and>
        intervals (eta_effect st st) = insert (nextTimerId st) (intervals st)) \<and>
     (COUNTDOWN_START_PCT \<le> lkRef st \<and> lkRef st < PEAK_NOW_PCT \<and> etaSeconds st \<noteq> None \<longrightarrow>
        eta_effect st st = st) \<and>
     (\<forall>n. etaSeconds st = Some n \<longrightarrow>
        etaSeconds (countdown_tick st) = Some (if n \<le> 1 then 1 else n - 1) \<and>
        (\<forall>m. etaSeconds (countdown_tick st) = Some m \<longrightarrow> 1 \<le> m)) \<and>
     (PEAK_NOW_PCT \<le> lkRef st \<longrightarrow>
        etaNow (eta_effect st st) \<and> etaSeconds (eta_effect st st) = None) \<and>
     (lkRef st < COUNTDOWN_START_PCT \<and> etaSeconds st \<noteq> None \<longrightarrow>
        etaSeconds (eta_effect st st) = None \<and>
        (\<forall>h. countdownTimerRef st = Some h \<and> 0 < h \<longrightarrow>
           countdownTimerRef (eta_effect st st) = None \<and> h \<notin> intervals (eta_effect st st)))"
proof (intro conjI impI allI)
  assume a: "COUNTDOWN_START_PCT \<le> lkRef st \<and> lkRef st < PEAK_NOW_PCT \<and> etaSeconds st = None"
  then have e: "eta_effect st st =
           st\<lparr> etaSeconds := Some COUNTDOWN_START_S,
               countdownTimerRef := Some (nextTimerId st),
               intervals := insert (nextTimerId st) (intervals st),
               nextTimerId := nextTimerId st + 1 \<rparr>"
    using assms eta_effect_start by blast
  show "etaSeconds (eta_effect st st) = Some 20"
    by (simp add: e COUNTDOWN_START_S_def)
  show "countdownTimerRef (eta_effect st st) = Some (nextTimerId st)"
    by (simp add: e)
  show "intervals (eta_effect st st) = insert (nextTimerId st) (intervals st)"
    by (simp add: e)
next
  assume "COUNTDOWN_START_PCT \<le> lkRef st \<and> lkRef st < PEAK_NOW_PCT \<and> etaSeconds st \<noteq> None"
  then show "eta_effect st st = st"
    using assms eta_effect_running by blast
next
  fix n assume "etaSeconds st = Some n"
  then show "etaSeconds (countdown_tick st) = Some (if n \<le> 1 then 1 else n - 1)"
    by (simp add: countdown_tick_def)
next
  fix n m assume "etaSeconds st = Some n" "etaSeconds (countdown_tick st) = Some m"
  then show "1 \<le> m"
    by (auto simp: countdown_tick_def split: if_splits)
next
  assume "PEAK_NOW_PCT \<le> lkRef st"
  then have e: "eta_effect st st = clearCountdown (st\<lparr> etaNow := True, etaSeconds := None \<rparr>)"
    using assms eta_effect_now by blast
  show "etaNow (eta_effect st st)" by (simp add: e)
  show "etaSeconds (eta_effect st st) = None" by (simp add: e)
next
  assume a: "lkRef st < COUNTDOWN_START_PCT \<and> etaSeconds st \<noteq> None"
  then have e: "eta_effect st st = clearCountdown (st\<lparr> etaSeconds := None \<rparr>)"
    using assms eta_effect_cancel by blast
  show "etaSeconds (eta_effect st st) = None" by (simp add: e)
  fix h assume h: "countdownTimerRef st = Some h \<and> 0 < h"
  then have c: "countdownTimerRef (st\<lparr> etaSeconds := None \<rparr>) = Some h" by simp
  show "countdownTimerRef (eta_effect st st) = None"
    using clearCountdown_handle [OF c] h by (simp add: e)
  show "h \<notin> intervals (eta_effect st st)"
    using clearCountdown_handle [OF c] h by (simp add: e)
qed

theorem countdown_window_witness:
  "\<not> etaNow entering_window \<and> lkRef entering_window = 96 \<and>
   etaSeconds entering_window = None \<and> etaSeconds counting = Some 20 \<and>
   countdownTimerRef counting = Some 1 \<and> intervals counting = {1} \<and>
   eta_effect counting counting = counting \<and>
   etaSeconds (countdown_tick counting) = Some 19 \<and>
   lkRef dropped = 94 \<and> etaSeconds dropped = Some 20 \<and>
   etaSeconds (eta_effect dropped dropped) = None \<and>
   countdownTimerRef (eta_effect dropped dropped) = None \<and>
   1 \<notin> intervals (eta_effect dropped dropped)"
proof -
  have a: "\<not> etaNow entering_window" "lkRef entering_window = 96"
    "etaSeconds entering_window = None" "nextTimerId entering_window = 1"
    "intervals entering_window = {}"
    by (simp_all add: entering_window_def init_def)
  have b: "\<not> etaNow counting" "lkRef counting = 96" "etaSeconds counting = Some 20"
    by (simp_all add: counting_eq a)
  have c: "\<not> etaNow dropped" "lkRef dropped = 94" "etaSeconds dropped = Some 20"
    "countdownTimerRef dropped = Some 1"
    by (simp_all add: dropped_def counting_eq a)
  show ?thesis
    using countdown_window [OF a(1)] countdown_window [OF b(1)] countdown_window [OF c(1)]
    by (simp add: a b c counting_def [symmetric] COUNTDOWN_START_PCT_def PEAK_NOW_PCT_def)
qed

text \<open>
  C5 as stated fails when "now" is already shown, as it is from the entry to peakHold
  on: with the likelihood at 97 and no countdown displayed, the ETA effect returns early
  and no countdown starts.
\<close>

theorem countdown_counterexample:
  "COUNTDOWN_START_PCT \<le> lkRef now_in_window \<and> lkRef now_in_window < PEAK_NOW_PCT \<and>
   etaSeconds now_in_window = None \<and>
   etaSeconds (eta_effect now_in_window now_in_window) \<noteq> Some COUNTDOWN_START_S"
  by (simp add: now_in_window_def init_def eta_effect_def clearCountdown_def
        COUNTDOWN_START_PCT_def PEAK_NOW_PCT_def)

subsection \<open>Starting the demo\<close>

text \<open>
  No peak-hold timeout is pending outside peakHold: the timeout is set on entering
  peakHold, its callback leaves peakHold, and the button starts a demo from idle only.
\<close>

lemma peak_timer_fields_lk_effect:
  "phase (lk_effect snap acc) = phase acc"
  "peakHoldTimerRef (lk_effect snap acc) = peakHoldTimerRef acc"
  "timeouts (lk_effect snap acc) = timeouts acc"
  by (simp_all add: lk_effect_def Let_def)

lemma peak_timer_fields_stage_effect:
  "peakHoldTimerRef (stage_effect snap acc) = peakHoldTimerRef acc"
  "timeouts (stage_effect snap acc) = timeouts acc"
  by (simp_all add: stage_effect_def Let_def)

lemma peak_timer_fields_clearCountdown:
  "phase (clearCountdown a) = phase a"
  "peakHoldTimerRef (clearCountdown a) = peakHoldTimerRef a"
  "timeouts (clearCountdown a) = timeouts a"
  by (simp_all add: clearCountdown_def split: option.split)

lemma peak_timer_fields_eta_effect:
  "phase (eta_effect snap acc) = phase acc"
  "peakHoldTimerRef (eta_effect snap acc) = peakHoldTimerRef acc"
  "timeouts (eta_effect snap acc) = timeouts acc"
  by (simp_all add: eta_effect_def Let_def peak_timer_fields_clearCountdown)

lemma peak_timer_fields_danger_alert_effect:
  "phase (danger_alert_effect snap acc) = phase acc"
  "peakHoldTimerRef (danger_alert_effect snap acc) = peakHoldTimerRef acc"
  "timeouts (danger_alert_effect snap acc) = timeouts acc"
  by (simp_all add: danger_alert_effect_def)

lemma peak_timer_fields_danger_since_effect:
  "phase (danger_since_effect now snap acc) = phase acc"
  "peakHoldTimerRef (danger_since_effect now snap acc) = peakHoldTimerRef acc"
  "timeouts (danger_since_effect now snap acc) = timeouts acc"
  by (simp_all add: danger_since_effect_def)

lemma peak_timer_ok_peak_effect:
  "peak_timer_ok acc \<Longrightarrow> peak_timer_ok (peak_effect now snap acc)"
  by (auto simp: peak_timer_ok_def peak_effect_def Let_def split: option.splits)

lemma peak_timer_ok_run_effects:
  assumes "peak_timer_ok st"
  shows "peak_timer_ok (run_effects sel now st)"
proof -
  define a1 where "a1 = (if LkEffect \<in> sel then lk_effect st st else st)"
  define a2 where "a2 = (if StageEffect \<in> sel then stage_effect st a1 else a1)"
  define a3 where "a3 = (if EtaEffect \<in> sel then eta_effect st a2 else a2)"
  define a4 where "a4 = (if DangerAlertEffect \<in> sel then danger_alert_effect st a3 else a3)"
  define a5 where "a5 = (if DangerSinceEffect \<in> sel then danger_since_effect now st a4 else a4)"
  have r: "run_effects sel now st = (if PeakEffect \<in> sel then peak_effect now st a5 else a5)"
    by (simp add: run_effects_def Let_def a1_def a2_def a3_def a4_def a5_def)
  have 1: "peak_timer_ok a1" "phase a1 = phase st"
    using assms by (simp_all add: a1_def peak_timer_ok_def peak_timer_fields_lk_effect)
  have 2: "peak_timer_ok a2"
    using 1 by (auto simp: a2_def peak_timer_ok_def peak_timer_fields_stage_effect
        phase_stage_effect)
  have 3: "peak_timer_ok a3"
    using 2 by (simp add: a3_def peak_timer_ok_def peak_timer_fields_eta_effect)
  have 4: "peak_timer_ok a4"
    using 3 by (simp add: a4_def peak_timer_ok_def peak_timer_fields_danger_alert_effect)
  have 5: "peak_timer_ok a5"
    using 4 by (simp add: a5_def peak_timer_ok_def peak_timer_fields_danger_since_effect)
  show ?thesis
    using 5 by (simp add: r peak_timer_ok_peak_effect)
qed

lemma peak_timer_ok_step: "step st st' \<Longrightarrow> peak_timer_ok st \<Longrightarrow> peak_timer_ok st'"
proof (induction rule: step.induct)
  case (step_tick rnd st)
  then show ?case by (simp add: peak_timer_ok_def tick_def)
next
  case (step_countdown h st)
  then show ?case by (simp add: peak_timer_ok_def countdown_tick_def)
next
  case (step_peak_timeout h st)
  then show ?case by (auto simp: peak_timer_ok_def peak_timeout_def split: option.splits)
next
  case (step_start st now)
  then show ?case by (auto simp: peak_timer_ok_def start_demo_def onStartDemo_def)
next
  case (step_effects st sel now)
  then show ?case by (simp add: peak_timer_ok_run_effects)
qed

lemma peak_timer_ok_reachable: "reachable st \<Longrightarrow> peak_timer_ok st"
proof (induction rule: reachable.induct)
  case reachable_init
  show ?case by (simp add: peak_timer_ok_def init_def)
next
  case (reachable_step st st')
  then show ?case by (simp add: peak_timer_ok_step)
qed

lemma idle_no_peak_timer:
  "reachable st \<Longrightarrow> phase st = idle \<Longrightarrow> peakHoldTimerRef st = None \<and> timeouts st = {}"
  using peak_timer_ok_reachable [of st] by (cases "peakHoldTimerRef st") (auto simp: peak_timer_ok_def)

lemma start_demo_twice: "start_demo t2 (start_demo t1 st) = start_demo t1 st"
  by (simp add: start_demo_def onStartDemo_def)

text \<open>
  On the manual surface \<open>startPMMode\<close> calls \<open>resetPM\<close> first, which cancels both of its
  timers, so after a start the only live timer is the new ramp interval.
\<close>

lemma clearRamp_ok:
  "pm_timers_ok s \<Longrightarrow>
     pm_intervals (clearRamp s) = {} \<and> rampIntervalRef (clearRamp s) = None \<and>
     pm_timeouts (clearRamp s) = pm_timeouts s \<and>
     holdTimeoutRef (clearRamp s) = holdTimeoutRef s \<and>
     pm_nextTimerId (clearRamp s) = pm_nextTimerId s \<and> sent (clearRamp s) = sent s"
  by (auto simp: pm_timers_ok_def clearRamp_def split: option.splits)

lemma clearHold_ok:
  "pm_timeouts s \<subseteq> (case holdTimeoutRef s of None \<Rightarrow> {} | Some h \<Rightarrow> {h}) \<Longrightarrow>
   holdTimeoutRef s \<noteq> Some 0 \<Longrightarrow>
     pm_timeouts (clearHold s) = {} \<and> holdTimeoutRef (clearHold s) = None \<and>
     pm_intervals (clearHold s) = pm_intervals s \<and>
     rampIntervalRef (clearHold s) = rampIntervalRef s \<and>
     pm_nextTimerId (clearHold s) = pm_nextTimerId s \<and> sent (clearHold s) = sent s"
  by (auto simp: clearHold_def split: option.splits)

lemma startPMMode_resets_timers:
  assumes "pm_timers_ok s"
  shows "pm (startPMMode s) = rampingUp \<and> pm_rain (startPMMode s) = 0 \<and>
         \<not> didStartHoldRef (startPMMode s) \<and>
         holdTimeoutRef (startPMMode s) = None \<and> pm_timeouts (startPMMode s) = {} \<and>
         rampIntervalRef (startPMMode s) = Some (pm_nextTimerId s) \<and>
         pm_intervals (startPMMode s) = {pm_nextTimerId s} \<and>
         pm_nextTimerId (startPMMode s) = pm_nextTimerId s + 1 \<and>
         sent (startPMMode s) = sent s @ [SCRIPT ''PM_MODE'']"
proof -
  have 1: "pm_intervals (clearRamp s) = {}" "rampIntervalRef (clearRamp s) = None"
    "pm_timeouts (clearRamp s) = pm_timeouts s" "holdTimeoutRef (clearRamp s) = holdTimeoutRef s"
    "pm_nextTimerId (clearRamp s) = pm_nextTimerId s" "sent (clearRamp s) = sent s"
    using clearRamp_ok [OF assms] by simp_all
  have 2: "pm_timeouts (clearHold (clearRamp s)) = {}"
    "holdTimeoutRef (clearHold (clearRamp s)) = None"
    "pm_intervals (clearHold (clearRamp s)) = {}"
    "rampIntervalRef (clearHold (clearRamp s)) = None"
    "pm_nextTimerId (clearHold (clearRamp s)) = pm_nextTimerId s"
    "sent (clearHold (clearRamp s)) = sent s"
    using clearHold_ok [of "clearRamp s"] assms 1 by (simp_all add: pm_timers_ok_def)
  show ?thesis
    by (simp add: startPMMode_def resetPM_def Let_def 2)
qed

lemma pm_timers_ok_startPMMode: "pm_timers_ok s \<Longrightarrow> pm_timers_ok (startPMMode s)"
  using startPMMode_resets_timers [of s] by (simp add: pm_timers_ok_def)

text \<open>
  C4 (as amended). On the scripted surface the button is enabled in idle only, so two
  presses in quick succession leave exactly the state of one press, from any phase:
  outside idle a press changes nothing; from idle the first press enters rampUp with the
  ETA display, the danger flag and the two time stamps reset, in every reachable state
  with no peak-hold timeout pending, and the second press changes nothing. On the manual
  surface \<open>startPMMode\<close> may be called in any mode and cancels the ramp interval and the
  hold timeout first: after one call and after two, the mode is rampingUp, the rain is 0,
  the hold flag is clear, no hold timeout is pending and exactly one ramp interval is
  live (the second call replaces the interval of the first by a new one).
\<close>

theorem start_demo_idempotent:
  "start_demo t2 (start_demo t1 st) = start_demo t1 st \<and>
   (phase st \<noteq> idle \<longrightarrow> start_demo t1 st = st) \<and>
   (phase st = idle \<longrightarrow>
      phase (start_demo t1 st) = rampUp \<and> etaSeconds (start_demo t1 st) = None \<and>
      \<not> etaNow (start_demo t1 st) \<and> \<not> dangerAlertedRef (start_demo t1 st) \<and>
      rampUpSinceRef (start_demo t1 st) = Some t1 \<and>
      dangerSinceRef (start_demo t1 st) = None) \<and>
   (reachable st \<and> phase st = idle \<longrightarrow>
      peakHoldTimerRef (start_demo t1 st) = None \<and> timeouts (start_demo t1 st) = {}) \<and>
   (pm_timers_ok s \<longrightarrow>
      pm (startPMMode s) = rampingUp \<and> pm_rain (startPMMode s) = 0 \<and>
      \<not> didStartHoldRef (startPMMode s) \<and> holdTimeoutRef (startPMMode s) = None \<and>
      pm_timeouts (startPMMode s) = {} \<and>
      pm_intervals (startPMMode s) = {pm_nextTimerId s} \<and>
      pm (startPMMode (startPMMode s)) = rampingUp \<and>
      pm_rain (startPMMode (startPMMode s)) = 0 \<and>
      \<not> didStartHoldRef (startPMMode (startPMMode s)) \<and>
      holdTimeoutRef (startPMMode (startPMMode s)) = None \<and>
      pm_timeouts (startPMMode (startPMMode s)) = {} \<and>
      pm_intervals (startPMMode (startPMMode s)) = {pm_nextTimerId s + 1})"
proof (intro conjI impI)
  show "start_demo t2 (start_demo t1 st) = start_demo t1 st"
    by (rule start_demo_twice)
next
  assume "phase st \<noteq> idle"
  then show "start_demo t1 st = st" by (simp add: start_demo_def)
next
  assume i: "phase st = idle"
  then show "phase (start_demo t1 st) = rampUp" "etaSeconds (start_demo t1 st) = None"
    "\<not> etaNow (start_demo t1 st)" "\<not> dangerAlertedRef (start_demo t1 st)"
    "rampUpSinceRef (start_demo t1 st) = Some t1" "dangerSinceRef (start_demo t1 st) = None"
    by (simp_all add: start_demo_def onStartDemo_def)
next
  assume r: "reachable st \<and> phase st = idle"
  then have "peakHoldTimerRef st = None \<and> timeouts st = {}"
    using idle_no_peak_timer by blast
  then show "peakHoldTimerRef (start_demo t1 st) = None" "timeouts (start_demo t1 st) = {}"
    by (simp_all add: start_demo_def onStartDemo_def)
next
  assume ok: "pm_timers_ok s"
  note a = startPMMode_resets_timers [OF ok]
  note b = startPMMode_resets_timers [OF pm_timers_ok_startPMMode [OF ok]]
  show "pm (startPMMode s) = rampingUp" "pm_rain (startPMMode s) = 0"
    "\<not> didStartHoldRef (startPMMode s)" "holdTimeoutRef (startPMMode s) = None"
    "pm_timeouts (startPMMode s) = {}" "pm_intervals (startPMMode s) = {pm_nextTimerId s}"
    using a by simp_all
  show "pm (startPMMode (startPMMode s)) = rampingUp"
    "pm_rain (startPMMode (startPMMode s)) = 0"
    "\<not> didStartHoldRef (startPMMode (startPMMode s))"
    "holdTimeoutRef (startPMMode (startPMMode s)) = None"
    "pm_timeouts (startPMMode (startPMMode s)) = {}"
    "pm_intervals (startPMMode (startPMMode s)) = {pm_nextTimerId s + 1}"
    using a b by simp_all
qed

theorem start_demo_idempotent_witness:
  "reachable init \<and> phase init = idle \<and> phase (start_demo 0 init) = rampUp \<and>
   start_demo 200 (start_demo 0 init) = start_demo 0 init \<and>
   rampUpSinceRef (start_demo 200 (start_demo 0 init)) = Some 0 \<and>
   timeouts (start_demo 0 init) = {} \<and>
   phase in_peakHold \<noteq> idle \<and> start_demo 61000 in_peakHold = in_peakHold \<and>
   pm_timers_ok pm_holding \<and> pm_timeouts pm_holding = {3} \<and>
   pm_timeouts (startPMMode pm_holding) = {} \<and>
   pm_intervals (startPMMode pm_holding) = {4} \<and>
   pm_intervals (startPMMode (startPMMode pm_holding)) = {5}"
proof -
  have i: "phase init = idle" by (simp add: init_def)
  have p: "phase in_peakHold \<noteq> idle" by (simp add: in_peakHold_fields)
  have ok: "pm_timers_ok pm_holding" "pm_nextTimerId pm_holding = 4"
    "pm_timeouts pm_holding = {3}"
    by (simp_all add: pm_timers_ok_def pm_holding_def)
  show ?thesis
    using start_demo_idempotent [of 200 0 init pm_holding]
          start_demo_idempotent [of 61000 61000 in_peakHold pm_holding]
    by (simp add: i p ok reachable_init)
qed

text \<open>
  C4 as stated fails outside idle: in peakHold the button is disabled, two presses change
  nothing, and the phase afterwards is peakHold, not rampUp.
\<close>

theorem start_demo_counterexample:
  "reachable in_peakHold \<and> phase in_peakHold = peakHold \<and>
   phase (start_demo 61000 (start_demo 60500 in_peakHold)) \<noteq> rampUp"
  by (simp add: reachable_in_peakHold in_peakHold_fields start_demo_def)

subsection \<open>The sanitiser of incoming snapshots\<close>






text \<open>
  C10. The status of the result is the incoming status whenever that is a string, whatever
  the string is; in every other case (the input or the field undefined, null, a boolean,
  a number) it is the previous status.
\<close>

theorem normalizeSky_status:
  "(\<forall>s. input_status input = JStr s \<longrightarrow> status (normalizeSky input prev) = Some s) \<and>
   ((\<forall>s. input_status input \<noteq> JStr s) \<longrightarrow> status (normalizeSky input prev) = status prev)"
  by (auto simp: normalizeSky_def Let_def split: jsval.splits)

theorem normalizeSky_status_witness:
  "input_status (Some not_finite) = JStr ''BANANA'' \<and>
   status (normalizeSky (Some not_finite) sky_default) = Some ''BANANA'' \<and>
   input_status (Some out_of_range) = JUndefined \<and>
   status (normalizeSky (Some out_of_range) sky_default) = Some ''NORMAL'' \<and>
   status (normalizeSky None sky_default) = Some ''NORMAL''"
  using normalizeSky_status [of "Some not_finite" sky_default]
        normalizeSky_status [of "Some out_of_range" sky_default]
        normalizeSky_status [of None sky_default]
  by (simp add: out_of_range_def not_finite_def sky_default_def input_status_def)

subsection \<open>Late subscription\<close>

lemma storageOk_publish1 [simp]: "storageOk (publish1 p b) = storageOk b"
  by (cases p) (simp_all add: publishSensors_def publishSky_def Let_def)

lemma storageOk_publishes [simp]: "storageOk (publishes ps b) = storageOk b"
  by (induction ps arbitrary: b) simp_all












end
